theory Spec2Isabelle
  imports Complex_Main
begin

section \<open>Configuration values\<close>

text \<open>
  A construct receives its configuration as a plain JavaScript object read from the
  service file. The static type \<open>Configuration = FromSchema<typeof SCHEMA>\<close> is erased
  at run time, so the model keeps the dynamic value: an object is an association list
  from property names to values, a property that is not there reads as \<open>undefined\<close>
  (\<open>None\<close>). Numbers are rationals (every finite double is one); strings are lists of
  8-bit characters, so a claim about string length is a claim about ASCII text.
\<close>

datatype json =
    JNull
  | JBool bool
  | JNum rat
  | JStr string
  | JArr "json list"
  | JObj "(string \<times> json) list"

type_synonym configuration = "(string \<times> json) list"

definition property :: "configuration \<Rightarrow> string \<Rightarrow> json option" where
  \<comment> \<open>\<open>configuration.k\<close>\<close>
  "property cfg k = map_of cfg k"

definition nullish :: "json option \<Rightarrow> json \<Rightarrow> json" where
  \<comment> \<open>\<open>v ?? d\<close>: the right operand replaces \<open>undefined\<close> and \<open>null\<close>, nothing else\<close>
  "nullish v d = (case v of None \<Rightarrow> d | Some JNull \<Rightarrow> d | Some x \<Rightarrow> x)"


section \<open>Regular expressions of the \<open>pattern\<close> keyword\<close>

text \<open>
  The schema validator compiles a \<open>pattern\<close> with \<open>new RegExp(pattern)\<close> (no flags) and
  accepts a string when \<open>test\<close> finds a match anywhere in it. The fragment below covers
  what the schemas of this repository use: the assertions \<open>^\<close> and \<open>$\<close>, literal
  characters, bracket classes with \<open>\w\<close>, \<open>\d\<close>, single characters and ranges, and the
  \<open>*\<close> quantifier. A pattern outside the fragment does not parse.
\<close>

definition backslash :: char where
  "backslash = CHR 0x5C"

datatype class_item = CWord | CDigit | CChar char | CRange char char

datatype atom = AChar char | AClass "class_item list"

datatype piece = Bol | Eol | One atom | Star atom

type_synonym regex = "piece list"

definition is_digit :: "char \<Rightarrow> bool" where
  "is_digit c = (48 \<le> (of_char c :: nat) \<and> (of_char c :: nat) \<le> 57)"

definition is_word :: "char \<Rightarrow> bool" where
  \<comment> \<open>\<open>\w\<close> is \<open>[A-Za-z0-9_]\<close>\<close>
  "is_word c = (let n = (of_char c :: nat) in
     (65 \<le> n \<and> n \<le> 90) \<or> (97 \<le> n \<and> n \<le> 122) \<or> (48 \<le> n \<and> n \<le> 57) \<or> n = 95)"

definition syntax_char :: "char \<Rightarrow> bool" where
  "syntax_char c = (c \<in> set ''^$.*+?()[]{}|/'' \<or> c = backslash \<or> c = CHR ''-'')"

definition class_escape :: "char \<Rightarrow> class_item option" where
  "class_escape e =
     (if e = CHR ''w'' then Some CWord
      else if e = CHR ''d'' then Some CDigit
      else if syntax_char e then Some (CChar e)
      else None)"

definition atom_escape :: "char \<Rightarrow> atom option" where
  "atom_escape e =
     (if e = CHR ''w'' then Some (AClass [CWord])
      else if e = CHR ''d'' then Some (AClass [CDigit])
      else if syntax_char e then Some (AChar e)
      else None)"

definition push_item :: "class_item \<Rightarrow> (class_item list \<times> string) option
    \<Rightarrow> (class_item list \<times> string) option" where
  "push_item i r = (case r of None \<Rightarrow> None | Some (is, rest) \<Rightarrow> Some (i # is, rest))"

text \<open>
  The body of a bracket class, up to and including the closing bracket. A dash between
  two plain characters makes a range; next to a class escape or to the closing bracket
  it is the character itself (the rule of non-Unicode patterns), which is how
  \<open>[\w\d-_]\<close> reads: word characters, digits, dash, underscore.
\<close>

fun parse_class :: "string \<Rightarrow> (class_item list \<times> string) option" where
  "parse_class [] = None"
| "parse_class (c # cs) =
     (if c = CHR '']'' then Some ([], cs)
      else if c = backslash then
        (case cs of
           [] \<Rightarrow> None
         | e # r \<Rightarrow> (case class_escape e of
                      None \<Rightarrow> None
                    | Some i \<Rightarrow> push_item i (parse_class r)))
      else
        (case cs of
           d # b # r \<Rightarrow>
             if d = CHR ''-'' \<and> b \<noteq> CHR '']'' \<and> b \<noteq> backslash
             then push_item (CRange c b) (parse_class r)
             else push_item (CChar c) (parse_class cs)
         | _ \<Rightarrow> push_item (CChar c) (parse_class cs)))"

lemma push_item_Some:
  "push_item i r = Some (is, rest) \<Longrightarrow> \<exists>js. r = Some (js, rest)"
  by (cases r) (auto simp: push_item_def)

lemma parse_class_step:
  assumes "parse_class (c # cs) = Some (is, rest)"
  shows "rest = cs \<or> (\<exists>t js. parse_class t = Some (js, rest) \<and> length t \<le> length cs)"
proof (cases "c = CHR '']''")
  case True
  with assms show ?thesis by simp
next
  case nb: False
  show ?thesis
  proof (cases "c = backslash")
    case True
    with nb assms obtain e r i where cs: "cs = e # r"
      and p: "push_item i (parse_class r) = Some (is, rest)"
      by (auto split: list.splits option.splits)
    from push_item_Some [OF p] cs show ?thesis by fastforce
  next
    case ns: False
    have "\<exists>i t. push_item i (parse_class t) = Some (is, rest) \<and> length t \<le> length cs"
    proof (cases cs)
      case Nil
      with nb ns assms show ?thesis by (simp add: push_item_def)
    next
      case c1: (Cons d ds)
      show ?thesis
      proof (cases ds)
        case Nil
        with c1 nb ns assms have "push_item (CChar c) (parse_class cs) = Some (is, rest)"
          by simp
        then show ?thesis by blast
      next
        case c2: (Cons b r)
        show ?thesis
        proof (cases "d = CHR ''-'' \<and> b \<noteq> CHR '']'' \<and> b \<noteq> backslash")
          case True
          with c1 c2 nb ns assms have "push_item (CRange c b) (parse_class r) = Some (is, rest)"
            by simp
          moreover have "length r \<le> length cs" using c1 c2 by simp
          ultimately show ?thesis by blast
        next
          case False
          with c1 c2 nb ns assms have "push_item (CChar c) (parse_class cs) = Some (is, rest)"
            by auto
          then show ?thesis by blast
        qed
      qed
    qed
    then obtain i t where p: "push_item i (parse_class t) = Some (is, rest)"
      and t: "length t \<le> length cs" by blast
    from push_item_Some [OF p] t show ?thesis by blast
  qed
qed

lemma parse_class_shorter:
  "parse_class s = Some (is, rest) \<Longrightarrow> length rest < length s"
proof (induction "length s" arbitrary: s "is" rest rule: less_induct)
  case less
  show ?case
  proof (cases s)
    case Nil
    with less.prems show ?thesis by simp
  next
    case (Cons c cs)
    from parse_class_step [of c cs "is" rest] less.prems Cons
    consider "rest = cs" | t js where "parse_class t = Some (js, rest)" "length t \<le> length cs"
      by blast
    then show ?thesis
    proof cases
      case 1
      with Cons show ?thesis by simp
    next
      case 2
      from less.hyps [of t js rest] 2 Cons have "length rest < length t" by simp
      with 2 Cons show ?thesis by simp
    qed
  qed
qed

definition split_star :: "string \<Rightarrow> bool \<times> string" where
  \<comment> \<open>a \<open>*\<close> right after an atom quantifies it\<close>
  "split_star s = (case s of c # r \<Rightarrow> if c = CHR ''*'' then (True, r) else (False, s)
                   | [] \<Rightarrow> (False, s))"

definition quantify :: "atom \<Rightarrow> bool \<Rightarrow> piece" where
  "quantify a starred = (if starred then Star a else One a)"

definition push_piece :: "piece \<Rightarrow> regex option \<Rightarrow> regex option" where
  "push_piece p r = (case r of None \<Rightarrow> None | Some ps \<Rightarrow> Some (p # ps))"

lemma split_star_length: "length (snd (split_star s)) \<le> length s"
  by (simp add: split_star_def split: list.splits)

function parse :: "string \<Rightarrow> regex option" where
  "parse [] = Some []"
| "parse (c # cs) =
     (if c = CHR ''^'' then push_piece Bol (parse cs)
      else if c = CHR ''$'' then push_piece Eol (parse cs)
      else if c = CHR ''['' then
        (case parse_class cs of
           None \<Rightarrow> None
         | Some (is, rest) \<Rightarrow>
             push_piece (quantify (AClass is) (fst (split_star rest)))
               (parse (snd (split_star rest))))
      else if c = backslash then
        (case cs of
           [] \<Rightarrow> None
         | e # rest \<Rightarrow> (case atom_escape e of
                         None \<Rightarrow> None
                       | Some a \<Rightarrow>
                           push_piece (quantify a (fst (split_star rest)))
                             (parse (snd (split_star rest)))))
      else if c \<in> set ''.*+?()]{}|'' then None
      else push_piece (quantify (AChar c) (fst (split_star cs)))
             (parse (snd (split_star cs))))"
  by pat_completeness auto
termination
proof (relation "measure length", goal_cases)
  case 1
  then show ?case by simp
next
  case (2 c cs)
  then show ?case by simp
next
  case (3 c cs)
  then show ?case by simp
next
  case (4 c cs x2 x y)
  then show ?case
    using parse_class_shorter [of cs x y] split_star_length [of y] by simp
next
  case (5 c cs e rest a)
  then show ?case
    using split_star_length [of rest] by simp
next
  case (6 c cs)
  then show ?case
    using split_star_length [of cs] by simp
qed

fun item_matches :: "class_item \<Rightarrow> char \<Rightarrow> bool" where
  "item_matches CWord c = is_word c"
| "item_matches CDigit c = is_digit c"
| "item_matches (CChar x) c = (c = x)"
| "item_matches (CRange lo hi) c =
     ((of_char lo :: nat) \<le> of_char c \<and> (of_char c :: nat) \<le> of_char hi)"

fun atom_matches :: "atom \<Rightarrow> char \<Rightarrow> bool" where
  "atom_matches (AChar x) c = (c = x)"
| "atom_matches (AClass is) c = list_ex (\<lambda>i. item_matches i c) is"

text \<open>
  \<open>match_here r at_start s\<close>: the pieces \<open>r\<close> match a prefix of the remaining input
  \<open>s\<close>; \<open>at_start\<close> tells whether nothing of the input has been consumed yet. Without
  the multiline flag \<open>$\<close> holds only where no input remains.
\<close>

fun match_here :: "regex \<Rightarrow> bool \<Rightarrow> string \<Rightarrow> bool" where
  "match_here [] at_start s = True"
| "match_here (Bol # r) at_start s = (at_start \<and> match_here r at_start s)"
| "match_here (Eol # r) at_start s = (s = [] \<and> match_here r at_start s)"
| "match_here (One a # r) at_start [] = False"
| "match_here (One a # r) at_start (x # xs) = (atom_matches a x \<and> match_here r False xs)"
| "match_here (Star a # r) at_start [] = match_here r at_start []"
| "match_here (Star a # r) at_start (x # xs) =
     ((atom_matches a x \<and> match_here (Star a # r) False xs)
      \<or> match_here r at_start (x # xs))"

fun search :: "regex \<Rightarrow> bool \<Rightarrow> string \<Rightarrow> bool" where
  "search r at_start [] = match_here r at_start []"
| "search r at_start (x # xs) = (match_here r at_start (x # xs) \<or> search r False xs)"

definition regex_test :: "string \<Rightarrow> string \<Rightarrow> bool" where
  \<comment> \<open>\<open>new RegExp(pattern).test(s)\<close>\<close>
  "regex_test pattern s = (case parse pattern of None \<Rightarrow> False | Some r \<Rightarrow> search r True s)"


section \<open>Schemas and their validation\<close>

text \<open>
  Both schemas of the repository are objects whose properties carry scalar constraints.
  A schema is kept as data, keyword by keyword, and one validator reads it with the
  meaning the keywords have in JSON Schema: \<open>pattern\<close>, \<open>minLength\<close> and \<open>minimum\<close>
  constrain only values of their own type, \<open>properties\<close> constrains only the
  properties that are present, \<open>additionalProperties: false\<close> closes the object.
\<close>

datatype constraint =
    Type string
  | Pattern string
  | MinLength nat
  | Enum "json list"
  | Minimum rat
  | Const json

record object_schema =
  schema_type :: string
  properties :: "(string \<times> constraint list) list"
  additionalProperties :: bool
  required :: "string list"

definition has_type :: "string \<Rightarrow> json \<Rightarrow> bool" where
  "has_type t v =
     (case v of
        JNull \<Rightarrow> t = ''null''
      | JBool b \<Rightarrow> t = ''boolean''
      | JNum q \<Rightarrow> t = ''number'' \<or> (t = ''integer'' \<and> of_int \<lfloor>q\<rfloor> = q)
      | JStr s \<Rightarrow> t = ''string''
      | JArr vs \<Rightarrow> t = ''array''
      | JObj kvs \<Rightarrow> t = ''object'')"

fun satisfies :: "constraint \<Rightarrow> json \<Rightarrow> bool" where
  "satisfies (Type t) v = has_type t v"
| "satisfies (Pattern p) v = (case v of JStr s \<Rightarrow> regex_test p s | _ \<Rightarrow> True)"
| "satisfies (MinLength n) v = (case v of JStr s \<Rightarrow> n \<le> length s | _ \<Rightarrow> True)"
| "satisfies (Enum vs) v = (v \<in> set vs)"
| "satisfies (Minimum m) v = (case v of JNum q \<Rightarrow> m \<le> q | _ \<Rightarrow> True)"
| "satisfies (Const c) v = (v = c)"

definition property_ok :: "configuration \<Rightarrow> string \<times> constraint list \<Rightarrow> bool" where
  "property_ok kvs p =
     (case map_of kvs (fst p) of
        None \<Rightarrow> True
      | Some x \<Rightarrow> list_all (\<lambda>c. satisfies c x) (snd p))"

definition validate :: "object_schema \<Rightarrow> json \<Rightarrow> bool" where
  "validate sch v =
     (has_type (schema_type sch) v \<and>
      (case v of
         JObj kvs \<Rightarrow>
           list_all (property_ok kvs) (properties sch) \<and>
           (additionalProperties sch \<or>
              list_all (\<lambda>k. k \<in> set (map fst (properties sch))) (map fst kvs)) \<and>
           list_all (\<lambda>k. map_of kvs k \<noteq> None) (required sch)
       | _ \<Rightarrow> True))"


section \<open>The provider\<close>

text \<open>
  The constructs read the stack name from the provider and the network construct
  registers itself there. Each registration is kept, latest last, so that how often a
  construct registers can be read off the provider.
\<close>

record AwsProvider =
  stackName :: string
  vpcConfig :: "(string list \<times> string list) list"

definition setVpcConfig :: "string list \<Rightarrow> string list \<Rightarrow> AwsProvider \<Rightarrow> AwsProvider" where
  \<comment> \<open>Modelled from the spec: \<open>AwsProvider.setVpcConfig\<close> is not among the sources; it
      publishes security group identifiers and subnet identifiers to provider-wide state.\<close>
  "setVpcConfig securityGroups subnets provider =
     provider\<lparr>vpcConfig := vpcConfig provider @ [(securityGroups, subnets)]\<rparr>"


section \<open>The database construct\<close>

definition NAME_PATTERN :: string where
  \<comment> \<open>the characters of the string literal \<open>"^[\\w\\d-_]*$/"\<close>\<close>
  "NAME_PATTERN = ''^['' @ [backslash, CHR ''w'', backslash, CHR ''d''] @ ''-_]*$/''"

definition SCHEMA :: object_schema where
  "SCHEMA = \<lparr>
     schema_type = ''object'',
     properties = [
       (''name'', [Type ''string'', Pattern NAME_PATTERN]),
       (''password'', [Type ''string'', MinLength 8]),
       (''engine'', [Type ''string'', Enum [JStr ''mysql'', JStr ''mariadb'', JStr ''postgres'']]),
       (''instanceType'', [Type ''string'']),
       (''storageSize'', [Type ''integer'', Minimum 20])],
     additionalProperties = False,
     required = [''password'']\<rparr>"

datatype MysqlEngineVersion = MysqlEngineVersion_of string string
datatype MariaDbEngineVersion = MariaDbEngineVersion_of string string
datatype PostgresEngineVersion = PostgresEngineVersion_of string string

datatype IInstanceEngine =
    DatabaseInstanceEngine_mysql MysqlEngineVersion
  | DatabaseInstanceEngine_mariaDb MariaDbEngineVersion
  | DatabaseInstanceEngine_postgres PostgresEngineVersion

datatype InstanceType = InstanceType json
datatype SecretValue = SecretValue_plainText "json option"
datatype Credentials = Credentials_fromPassword string SecretValue
datatype SubnetType = ISOLATED | PRIVATE | PUBLIC
datatype Duration = Duration_days nat | Duration_hours nat
datatype RetentionDays = ONE_DAY | THREE_DAYS | FIVE_DAYS | ONE_WEEK | TWO_WEEKS | ONE_MONTH

record 'vpc DatabaseInstanceProps =
  instanceIdentifier :: json
  databaseName :: string
  engine :: "IInstanceEngine option"
  instanceType :: InstanceType
  credentials :: Credentials
  vpc :: 'vpc
  vpcSubnets :: SubnetType
  allocatedStorage :: json
  backupRetention :: Duration
  cloudwatchLogsExports :: "string list"
  cloudwatchLogsRetention :: RetentionDays

datatype error = TypeError

definition replace_all :: "char \<Rightarrow> string \<Rightarrow> string \<Rightarrow> string" where
  \<comment> \<open>\<open>s.replace(/c/g, r)\<close> for a one-character pattern\<close>
  "replace_all c r s = concat (map (\<lambda>x. if x = c then r else [x]) s)"

definition safeDbName :: "string \<Rightarrow> string" where
  "safeDbName name = replace_all (CHR ''_'') '''' (replace_all (CHR ''-'') '''' name)"

definition call_safeDbName :: "json \<Rightarrow> error + string" where
  \<comment> \<open>only a string has a \<open>replace\<close> method; on any other value the call throws\<close>
  "call_safeDbName v = (case v of JStr name \<Rightarrow> Inr (safeDbName name) | _ \<Rightarrow> Inl TypeError)"

definition getEngine :: "configuration \<Rightarrow> json" where
  "getEngine cfg = nullish (property cfg ''engine'') (JStr ''mysql'')"

text \<open>
  The \<open>switch\<close> compares with \<open>===\<close> and has no \<open>default\<close>: on any other value control
  reaches the end of the method, which then returns \<open>undefined\<close> (\<open>None\<close>).
\<close>

definition getEngineVersion :: "configuration \<Rightarrow> IInstanceEngine option" where
  "getEngineVersion cfg =
     (let e = getEngine cfg in
      if e = JStr ''mysql'' then
        Some (DatabaseInstanceEngine_mysql (MysqlEngineVersion_of ''8.0.23'' ''8.0''))
      else if e = JStr ''mariadb'' then
        Some (DatabaseInstanceEngine_mariaDb (MariaDbEngineVersion_of ''10.5.8'' ''10.5''))
      else if e = JStr ''postgres'' then
        Some (DatabaseInstanceEngine_postgres (PostgresEngineVersion_of ''13.2'' ''13''))
      else None)"

text \<open>
  The constructor, as the properties it hands to \<open>new DatabaseInstance\<close>. The argument
  \<open>enabledVpc\<close> is what \<open>provider.enableVpc()\<close> returned.
\<close>

definition Database ::
  "'vpc \<Rightarrow> string \<Rightarrow> configuration \<Rightarrow> AwsProvider \<Rightarrow> error + 'vpc DatabaseInstanceProps" where
  "Database enabledVpc id' cfg provider =
     (case call_safeDbName
             (nullish (property cfg ''name'') (JStr (stackName provider @ ''-'' @ id'))) of
        Inl e \<Rightarrow> Inl e
      | Inr dbName \<Rightarrow> Inr \<lparr>
          instanceIdentifier =
            nullish (property cfg ''name'') (JStr (stackName provider @ ''-'' @ id')),
          databaseName = dbName,
          engine = getEngineVersion cfg,
          instanceType = InstanceType (nullish (property cfg ''instanceType'') (JStr ''t3.micro'')),
          credentials = Credentials_fromPassword ''admin''
            (SecretValue_plainText (property cfg ''password'')),
          vpc = enabledVpc,
          vpcSubnets = PRIVATE,
          allocatedStorage = nullish (property cfg ''storageSize'') (JNum 20),
          backupRetention = Duration_days 7,
          cloudwatchLogsExports = [''''],
          cloudwatchLogsRetention = ONE_WEEK\<rparr>)"


section \<open>The network construct\<close>

definition VPC_DEFINITION :: object_schema where
  "VPC_DEFINITION = \<lparr>
     schema_type = ''object'',
     properties = [(''type'', [Const (JStr ''vpc'')])],
     additionalProperties = False,
     required = []\<rparr>"

datatype Peer = Peer_anyIpv4 | Peer_anyIpv6 | Peer_ipv4 string | Peer_ipv6 string
datatype Port = Port_allTraffic | Port_allTcp | Port_allUdp | Port_tcp nat | Port_udp nat

record VpcProps =
  maxAzs :: nat

record Subnet =
  subnetId :: string

record SecurityGroup =
  sgId :: string
  sgVpc :: string
  securityGroupName :: string
  egressRules :: "(Peer \<times> Port) list"

text \<open>
  What the infrastructure library decides on its own while the construct is built: the
  private subnets it lays out for the network and the name under which it knows a
  security group. Both are arguments of the model.
\<close>

record Cdk =
  subnetsOf :: "string \<Rightarrow> VpcProps \<Rightarrow> Subnet list"
  groupNameOf :: "string \<Rightarrow> string \<Rightarrow> string"

record Vpc =
  vpcId :: string
  vpcProps :: VpcProps
  privateSubnets :: "Subnet list"
  securityGroups :: "SecurityGroup list"
  appSecurityGroup :: "SecurityGroup option"

definition CdkVpc :: "Cdk \<Rightarrow> string \<Rightarrow> VpcProps \<Rightarrow> Vpc" where
  \<comment> \<open>\<open>super(scope, id, props)\<close>: the network itself, no security group declared yet\<close>
  "CdkVpc cdk id' props = \<lparr>
     vpcId = id',
     vpcProps = props,
     privateSubnets = subnetsOf cdk id' props,
     securityGroups = [],
     appSecurityGroup = None\<rparr>"

definition new_SecurityGroup :: "Cdk \<Rightarrow> Vpc \<Rightarrow> string \<Rightarrow> SecurityGroup" where
  \<comment> \<open>\<open>new SecurityGroup(scope, id, {vpc: scope})\<close>\<close>
  "new_SecurityGroup cdk scope id' = \<lparr>
     sgId = id',
     sgVpc = vpcId scope,
     securityGroupName = groupNameOf cdk (vpcId scope) id',
     egressRules = []\<rparr>"

definition addEgressRule :: "Peer \<Rightarrow> Port \<Rightarrow> SecurityGroup \<Rightarrow> SecurityGroup" where
  "addEgressRule peer port sg = sg\<lparr>egressRules := egressRules sg @ [(peer, port)]\<rparr>"

text \<open>
  The constructor, statement by statement; it returns the construct and the provider
  after the registration. The configuration is an argument that no statement reads.
\<close>

definition Vpc_constructor :: "Cdk \<Rightarrow> string \<Rightarrow> json \<Rightarrow> AwsProvider \<Rightarrow> Vpc \<times> AwsProvider" where
  "Vpc_constructor cdk id' cfg provider =
     (let this = CdkVpc cdk id' \<lparr>maxAzs = 2\<rparr>;
          sg = new_SecurityGroup cdk this ''AppSecurityGroup'';
          sg = addEgressRule Peer_anyIpv4 Port_allTraffic sg;
          this = this\<lparr>securityGroups := securityGroups this @ [sg],
                       appSecurityGroup := Some sg\<rparr>;
          provider = setVpcConfig [securityGroupName sg] (map subnetId (privateSubnets this))
                       provider
      in (this, provider))"

type_synonym output_value = "string option"

definition Vpc_outputs :: "Vpc \<Rightarrow> string \<Rightarrow> output_value option" where
  "Vpc_outputs this = Map.empty"

definition Vpc_references :: "(Vpc \<Rightarrow> string \<Rightarrow> string option) option" where
  \<comment> \<open>the class declares no \<open>references\<close> member\<close>
  "Vpc_references = None"


section \<open>The name pattern and the engine table as the specification words them\<close>

text \<open>
  Read from the specification, not from the code: the pattern \<open>^[\w\d_-]*$\<close> it gives for
  \<open>name\<close>, the fixed table from the engine name to the engine and its version pair (full
  version, major version), and the engine a configuration asks for, \<open>mysql\<close> when the
  field is absent.
\<close>

definition SPEC_NAME_PATTERN :: string where
  "SPEC_NAME_PATTERN = ''^['' @ [backslash, CHR ''w'', backslash, CHR ''d''] @ ''_-]*$''"

definition spec_engine_table :: "string \<Rightarrow> (string \<times> string \<times> string) option" where
  "spec_engine_table = map_of [
     (''mysql'', (''mysql'', ''8.0.23'', ''8.0'')),
     (''mariadb'', (''mariadb'', ''10.5.8'', ''10.5'')),
     (''postgres'', (''postgres'', ''13.2'', ''13''))]"

definition spec_configured_engine :: "configuration \<Rightarrow> string option" where
  "spec_configured_engine cfg =
     (case property cfg ''engine'' of
        None \<Rightarrow> Some ''mysql''
      | Some (JStr name) \<Rightarrow> Some name
      | Some other \<Rightarrow> None)"

text \<open>
  What an engine object of the infrastructure library stands for: its engine type and
  the version pair it was given.
\<close>

fun engine_row :: "IInstanceEngine \<Rightarrow> string \<times> string \<times> string" where
  "engine_row (DatabaseInstanceEngine_mysql (MysqlEngineVersion_of full major)) =
     (''mysql'', full, major)"
| "engine_row (DatabaseInstanceEngine_mariaDb (MariaDbEngineVersion_of full major)) =
     (''mariadb'', full, major)"
| "engine_row (DatabaseInstanceEngine_postgres (PostgresEngineVersion_of full major)) =
     (''postgres'', full, major)"


section \<open>Facts about the pattern and the schema\<close>

lemma parse_NAME_PATTERN:
  "parse NAME_PATTERN =
     Some [Bol, Star (AClass [CWord, CDigit, CChar (CHR ''-''), CChar (CHR ''_'')]), Eol,
           One (AChar (CHR ''/''))]"
  by (simp add: NAME_PATTERN_def backslash_def push_item_def push_piece_def
        class_escape_def split_star_def quantify_def)

text \<open>
  A character that has to follow the end of the input is never found, whatever comes
  before the \<open>$\<close> and wherever the search starts.
\<close>

lemma match_here_past_end: "\<not> match_here (Eol # One b # r) at_start s"
  by (cases s) simp_all

lemma match_here_star_past_end: "\<not> match_here (Star a # Eol # One b # r) at_start s"
  by (induction s arbitrary: at_start) (simp_all add: match_here_past_end)

lemma search_past_end: "\<not> search (Bol # Star a # Eol # One b # r) at_start s"
  by (induction s arbitrary: at_start) (simp_all add: match_here_star_past_end)

lemma NAME_PATTERN_matches_nothing: "\<not> regex_test NAME_PATTERN s"
  by (simp add: regex_test_def parse_NAME_PATTERN search_past_end)

lemma validate_SCHEMA_unfold:
  "validate SCHEMA (JObj cfg) \<longleftrightarrow>
     property_ok cfg (''name'', [Type ''string'', Pattern NAME_PATTERN]) \<and>
     property_ok cfg (''password'', [Type ''string'', MinLength 8]) \<and>
     property_ok cfg (''engine'',
       [Type ''string'', Enum [JStr ''mysql'', JStr ''mariadb'', JStr ''postgres'']]) \<and>
     property_ok cfg (''instanceType'', [Type ''string'']) \<and>
     property_ok cfg (''storageSize'', [Type ''integer'', Minimum 20]) \<and>
     set (map fst cfg) \<subseteq> {''name'', ''password'', ''engine'', ''instanceType'', ''storageSize''} \<and>
     property cfg ''password'' \<noteq> None"
  by (auto simp add: validate_def SCHEMA_def has_type_def property_def list_all_iff)

lemma validated_name: "validate SCHEMA (JObj cfg) \<Longrightarrow> property cfg ''name'' = None"
  by (auto simp: validate_SCHEMA_unfold property_ok_def property_def has_type_def
        NAME_PATTERN_matches_nothing split: option.splits json.splits)

lemma validated_engine:
  "validate SCHEMA (JObj cfg) \<Longrightarrow>
     property cfg ''engine'' \<in>
       {None, Some (JStr ''mysql''), Some (JStr ''mariadb''), Some (JStr ''postgres'')}"
  by (auto simp: validate_SCHEMA_unfold property_ok_def property_def has_type_def
        split: option.splits json.splits)

lemma engine_passed_through:
  "Database enabledVpc id' cfg provider = Inr p \<Longrightarrow> engine p = getEngineVersion cfg"
  by (auto simp: Database_def split: sum.splits)

lemma Database_returns:
  assumes "validate SCHEMA (JObj cfg)"
  shows "\<exists>p. Database enabledVpc id' cfg provider = Inr p"
  using validated_name [OF assms]
  by (simp add: Database_def nullish_def call_safeDbName_def)


section \<open>The name pattern\<close>

text \<open>
  C1. The schema is meant to accept a \<open>name\<close> made of word characters, digits, dashes and
  underscores, \<open>my-db\<close> among them, and the specification's pattern does match \<open>my-db\<close>.
  The pattern in the schema ends in \<open>$/\<close>: after the end-of-input assertion it still
  asks for a slash, so it matches no string at all (\<open>NAME_PATTERN_matches_nothing\<close>). The
  configuration of the specification's second scenario is rejected, and the same
  configuration without its \<open>name\<close> is accepted.
\<close>

theorem schema_rejects_name_my_db:
  "regex_test SPEC_NAME_PATTERN ''my-db'' \<and>
   \<not> regex_test NAME_PATTERN ''my-db'' \<and>
   \<not> validate SCHEMA (JObj [(''name'', JStr ''my-db''), (''password'', JStr ''longpass1''),
       (''engine'', JStr ''postgres''), (''storageSize'', JNum 50)]) \<and>
   validate SCHEMA (JObj [(''password'', JStr ''longpass1''),
       (''engine'', JStr ''postgres''), (''storageSize'', JNum 50)])"
proof -
  have "regex_test SPEC_NAME_PATTERN ''my-db''"
    by (simp add: regex_test_def SPEC_NAME_PATTERN_def backslash_def push_item_def
          push_piece_def class_escape_def split_star_def quantify_def is_word_def is_digit_def)
  then show ?thesis
    by (simp add: validate_def SCHEMA_def has_type_def property_ok_def
          NAME_PATTERN_matches_nothing)
qed


section \<open>The engine and its version\<close>

text \<open>
  C2, as claimed: an engine value outside the three names makes the mapping raise an
  internal error. It does not: for the engine \<open>oracle\<close> the mapping returns no engine and
  the constructor hands that undefined engine on to the declaration of the instance.
\<close>

theorem getEngineVersion_unmapped_counterexample:
  "getEngineVersion [(''password'', JStr ''longpass1''), (''engine'', JStr ''oracle'')] = None \<and>
   map_sum id engine
     (Database () ''db'' [(''password'', JStr ''longpass1''), (''engine'', JStr ''oracle'')]
        \<lparr>stackName = ''app'', vpcConfig = []\<rparr>) = Inr None"
  by (simp add: Database_def getEngineVersion_def getEngine_def property_def nullish_def
        call_safeDbName_def)

text \<open>
  C2, amended: for every engine value other than \<open>null\<close> and the three names the mapping
  raises nothing and returns no engine, and every declaration the constructor then makes
  has no engine; in particular no default engine is substituted.
\<close>

theorem getEngineVersion_unmapped:
  assumes "property cfg ''engine'' = Some e"
    and "e \<notin> {JNull, JStr ''mysql'', JStr ''mariadb'', JStr ''postgres''}"
  shows "getEngineVersion cfg = None \<and>
         (\<forall>p. Database enabledVpc id' cfg provider = Inr p \<longrightarrow> engine p = None)"
proof -
  from assms have "getEngine cfg = e"
    by (cases e) (simp_all add: getEngine_def nullish_def)
  with assms(2) have "getEngineVersion cfg = None"
    by (simp add: getEngineVersion_def)
  then show ?thesis
    by (simp add: engine_passed_through)
qed

theorem getEngineVersion_unmapped_witness:
  "property [(''password'', JStr ''longpass1''), (''engine'', JStr ''oracle'')] ''engine''
     = Some (JStr ''oracle'') \<and>
   JStr ''oracle'' \<notin> {JNull, JStr ''mysql'', JStr ''mariadb'', JStr ''postgres''} \<and>
   getEngineVersion [(''password'', JStr ''longpass1''), (''engine'', JStr ''oracle'')] = None"
proof -
  have h1: "property [(''password'', JStr ''longpass1''), (''engine'', JStr ''oracle'')] ''engine''
     = Some (JStr ''oracle'')"
    by (simp add: property_def)
  have h2: "JStr ''oracle'' \<notin> {JNull, JStr ''mysql'', JStr ''mariadb'', JStr ''postgres''}"
    by simp
  from getEngineVersion_unmapped
         [where enabledVpc = "()" and id' = "''db''"
            and provider = "\<lparr>stackName = ''app'', vpcConfig = []\<rparr>", OF h1 h2]
  have "getEngineVersion [(''password'', JStr ''longpass1''), (''engine'', JStr ''oracle'')] = None"
    by (rule conjunct1)
  with h1 h2 show ?thesis by blast
qed

text \<open>
  C3. For every configuration the schema accepts, the constructor declares an instance
  whose engine is the row of the specification's table for the configured engine,
  \<open>mysql\<close> when the field is absent: the code's \<open>switch\<close> and the table agree.
\<close>

theorem engine_version_is_table_row:
  assumes "validate SCHEMA (JObj cfg)"
  shows "\<exists>p e name. Database enabledVpc id' cfg provider = Inr p \<and> engine p = Some e \<and>
           spec_configured_engine cfg = Some name \<and>
           spec_engine_table name = Some (engine_row e)"
proof -
  from Database_returns [OF assms, of enabledVpc id' provider] obtain p
    where p: "Database enabledVpc id' cfg provider = Inr p" by blast
  from validated_engine [OF assms] consider
      "property cfg ''engine'' = None"
    | "property cfg ''engine'' = Some (JStr ''mysql'')"
    | "property cfg ''engine'' = Some (JStr ''mariadb'')"
    | "property cfg ''engine'' = Some (JStr ''postgres'')"
    by auto
  then have "\<exists>e name. getEngineVersion cfg = Some e \<and> spec_configured_engine cfg = Some name \<and>
          spec_engine_table name = Some (engine_row e)"
    by cases
      (simp_all add: getEngineVersion_def getEngine_def nullish_def spec_configured_engine_def
         spec_engine_table_def)
  with p engine_passed_through [OF p] show ?thesis by auto
qed

theorem engine_version_is_table_row_witness:
  "validate SCHEMA (JObj [(''password'', JStr ''longpass1''), (''engine'', JStr ''postgres'')]) \<and>
   (\<exists>p e name.
      Database () ''db'' [(''password'', JStr ''longpass1''), (''engine'', JStr ''postgres'')]
        \<lparr>stackName = ''app'', vpcConfig = []\<rparr> = Inr p \<and>
      engine p = Some e \<and>
      spec_configured_engine [(''password'', JStr ''longpass1''), (''engine'', JStr ''postgres'')]
        = Some name \<and>
      spec_engine_table name = Some (engine_row e))"
proof -
  have h: "validate SCHEMA
      (JObj [(''password'', JStr ''longpass1''), (''engine'', JStr ''postgres'')])"
    by (simp add: validate_def SCHEMA_def has_type_def property_ok_def)
  from h engine_version_is_table_row
         [OF h, of "()" "''db''" "\<lparr>stackName = ''app'', vpcConfig = []\<rparr>"]
  show ?thesis by (rule conjI)
qed


section \<open>The declaration for the smallest configuration\<close>

text \<open>
  C4. The configuration \<open>{password: "longpass1"}\<close> passes the schema, and for every stack
  name and construct identifier the constructor declares exactly this instance: engine
  mysql 8.0.23, instance type \<open>t3.micro\<close>, allocated storage 20, backups kept 7 days,
  logs kept one week, and the identifier \<open>{stackName}-{id}\<close>.
\<close>

theorem default_configuration_declaration:
  "validate SCHEMA (JObj [(''password'', JStr ''longpass1'')]) \<and>
   Database enabledVpc id' [(''password'', JStr ''longpass1'')] provider = Inr \<lparr>
     instanceIdentifier = JStr (stackName provider @ ''-'' @ id'),
     databaseName = safeDbName (stackName provider @ ''-'' @ id'),
     engine = Some (DatabaseInstanceEngine_mysql (MysqlEngineVersion_of ''8.0.23'' ''8.0'')),
     instanceType = InstanceType (JStr ''t3.micro''),
     credentials = Credentials_fromPassword ''admin''
       (SecretValue_plainText (Some (JStr ''longpass1''))),
     vpc = enabledVpc,
     vpcSubnets = PRIVATE,
     allocatedStorage = JNum 20,
     backupRetention = Duration_days 7,
     cloudwatchLogsExports = [''''],
     cloudwatchLogsRetention = ONE_WEEK\<rparr>"
  by (simp add: validate_def SCHEMA_def has_type_def property_ok_def Database_def
        property_def nullish_def call_safeDbName_def getEngineVersion_def getEngine_def)


section \<open>The bounds on password and storage size\<close>

lemma short_password_rejected:
  assumes "property cfg ''password'' = Some (JStr p)" and "length p < 8"
  shows "\<not> validate SCHEMA (JObj cfg)"
  using assms by (simp add: validate_SCHEMA_unfold property_ok_def property_def)

lemma small_storage_rejected:
  assumes "property cfg ''storageSize'' = Some (JNum q)" and "q < 20"
  shows "\<not> validate SCHEMA (JObj cfg)"
  using assms by (simp add: validate_SCHEMA_unfold property_ok_def property_def)

lemma password_only_iff:
  "validate SCHEMA (JObj [(''password'', JStr p)]) \<longleftrightarrow> 8 \<le> length p"
  by (simp add: validate_SCHEMA_unfold property_ok_def property_def has_type_def)

lemma password_storage_iff:
  "validate SCHEMA (JObj [(''password'', JStr p), (''storageSize'', JNum q)]) \<longleftrightarrow>
     8 \<le> length p \<and> of_int \<lfloor>q\<rfloor> = q \<and> 20 \<le> q"
  by (simp add: validate_SCHEMA_unfold property_ok_def property_def has_type_def)

text \<open>
  C5. Whatever else a configuration holds, a password of fewer than 8 characters makes
  the schema reject it, and so does a storage size below 20; a password of exactly 8
  characters is accepted, and so is the storage size 20 next to any password that is
  long enough.
\<close>

theorem password_and_storage_boundaries:
  "(\<forall>cfg p. property cfg ''password'' = Some (JStr p) \<and> length p < 8
       \<longrightarrow> \<not> validate SCHEMA (JObj cfg)) \<and>
   (\<forall>p. length p = 8 \<longrightarrow> validate SCHEMA (JObj [(''password'', JStr p)])) \<and>
   (\<forall>cfg q. property cfg ''storageSize'' = Some (JNum q) \<and> q < 20
       \<longrightarrow> \<not> validate SCHEMA (JObj cfg)) \<and>
   (\<forall>p. 8 \<le> length p
       \<longrightarrow> validate SCHEMA (JObj [(''password'', JStr p), (''storageSize'', JNum 20)]))"
  by (simp add: short_password_rejected small_storage_rejected password_only_iff
        password_storage_iff)

theorem password_and_storage_boundaries_witness:
  "\<not> validate SCHEMA (JObj [(''password'', JStr ''1234567'')]) \<and>
   validate SCHEMA (JObj [(''password'', JStr ''12345678'')]) \<and>
   \<not> validate SCHEMA (JObj [(''password'', JStr ''longpass1''), (''storageSize'', JNum 19)]) \<and>
   validate SCHEMA (JObj [(''password'', JStr ''longpass1''), (''storageSize'', JNum 20)])"
proof -
  note b = password_and_storage_boundaries
  have a1: "property [(''password'', JStr ''1234567'')] ''password'' = Some (JStr ''1234567'')
      \<and> length ''1234567'' < 8"
    by (simp add: property_def)
  have a3: "property [(''password'', JStr ''longpass1''), (''storageSize'', JNum 19)]
      ''storageSize'' = Some (JNum 19) \<and> (19::rat) < 20"
    by (simp add: property_def)
  have c1: "\<not> validate SCHEMA (JObj [(''password'', JStr ''1234567'')])"
    using b a1 by blast
  have c2: "validate SCHEMA (JObj [(''password'', JStr ''12345678'')])"
    using b by simp
  have c3: "\<not> validate SCHEMA
      (JObj [(''password'', JStr ''longpass1''), (''storageSize'', JNum 19)])"
    using b a3 by blast
  have c4: "validate SCHEMA
      (JObj [(''password'', JStr ''longpass1''), (''storageSize'', JNum 20)])"
    using b by simp
  from c1 c2 c3 c4 show ?thesis by blast
qed


section \<open>The derived database name\<close>

lemma replace_all_empty: "replace_all c [] s = filter (\<lambda>x. x \<noteq> c) s"
  by (induction s) (simp_all add: replace_all_def)

lemma safeDbName_filter:
  "safeDbName s = filter (\<lambda>c. c \<noteq> CHR ''-'' \<and> c \<noteq> CHR ''_'') s"
  by (simp add: safeDbName_def replace_all_empty conj_commute)

text \<open>
  C6. \<open>safeDbName\<close> keeps, in order, exactly the characters that are neither a hyphen nor
  an underscore; it sends \<open>my-app_db-1\<close> to \<open>myappdb1\<close>; applying it twice gives what
  applying it once gives.
\<close>

theorem safeDbName_strips_separators:
  "safeDbName s = filter (\<lambda>c. c \<noteq> CHR ''-'' \<and> c \<noteq> CHR ''_'') s \<and>
   safeDbName ''my-app_db-1'' = ''myappdb1'' \<and>
   safeDbName (safeDbName s) = safeDbName s"
  by (simp add: safeDbName_filter)


section \<open>What the network construct builds and registers\<close>

text \<open>
  C7. Whatever the configuration, the network is declared with \<open>maxAzs = 2\<close>, the number
  of availability zones the construct asks the infrastructure library for, and with
  exactly one security group, which belongs to this network and whose only egress rule
  is any IPv4 peer on all traffic. The construct does not depend on the configuration.
\<close>

theorem Vpc_two_zones_one_open_group:
  "maxAzs (vpcProps (fst (Vpc_constructor cdk id' cfg provider))) = 2 \<and>
   (\<exists>sg. securityGroups (fst (Vpc_constructor cdk id' cfg provider)) = [sg] \<and>
         appSecurityGroup (fst (Vpc_constructor cdk id' cfg provider)) = Some sg \<and>
         sgVpc sg = vpcId (fst (Vpc_constructor cdk id' cfg provider)) \<and>
         egressRules sg = [(Peer_anyIpv4, Port_allTraffic)]) \<and>
   fst (Vpc_constructor cdk id' cfg provider) = fst (Vpc_constructor cdk id' cfg' provider)"
  by (simp add: Vpc_constructor_def Let_def CdkVpc_def new_SecurityGroup_def addEgressRule_def)

text \<open>
  C8. The constructor adds exactly one registration to the provider and changes nothing
  else there: the one-element list with the name of its security group, and the
  identifiers of its private subnets in order. Its \<open>outputs\<close> are empty and it has no
  \<open>references\<close>.
\<close>

theorem Vpc_registers_once:
  "(\<exists>sg. appSecurityGroup (fst (Vpc_constructor cdk id' cfg provider)) = Some sg \<and>
         vpcConfig (snd (Vpc_constructor cdk id' cfg provider)) =
           vpcConfig provider @
             [([securityGroupName sg],
               map subnetId (privateSubnets (fst (Vpc_constructor cdk id' cfg provider))))]) \<and>
   length (vpcConfig (snd (Vpc_constructor cdk id' cfg provider))) =
     Suc (length (vpcConfig provider)) \<and>
   stackName (snd (Vpc_constructor cdk id' cfg provider)) = stackName provider \<and>
   Vpc_outputs (fst (Vpc_constructor cdk id' cfg provider)) = Map.empty \<and>
   Vpc_references = None"
  by (simp add: Vpc_constructor_def Let_def CdkVpc_def new_SecurityGroup_def addEgressRule_def
        setVpcConfig_def Vpc_outputs_def Vpc_references_def)


section \<open>The identifier of the instance\<close>








section \<open>The log settings\<close>

text \<open>
  C10. For a configuration the schema accepts the constructor makes a declaration, and
  every declaration the constructor makes, for any configuration at all, exports the
  one-element list holding the empty string to CloudWatch and keeps the logs one week.
\<close>

theorem log_settings_are_fixed:
  "(validate SCHEMA (JObj cfg) \<longrightarrow> (\<exists>p. Database enabledVpc id' cfg provider = Inr p)) \<and>
   (\<forall>p. Database enabledVpc id' cfg provider = Inr p \<longrightarrow>
      cloudwatchLogsExports p = [''''] \<and> cloudwatchLogsRetention p = ONE_WEEK)"
proof (intro conjI impI allI)
  assume "validate SCHEMA (JObj cfg)"
  then show "\<exists>p. Database enabledVpc id' cfg provider = Inr p"
    by (rule Database_returns)
next
  fix p assume "Database enabledVpc id' cfg provider = Inr p"
  then show "cloudwatchLogsExports p = ['''']"
    by (auto simp: Database_def split: sum.splits)
next
  fix p assume "Database enabledVpc id' cfg provider = Inr p"
  then show "cloudwatchLogsRetention p = ONE_WEEK"
    by (auto simp: Database_def split: sum.splits)
qed

theorem log_settings_are_fixed_witness:
  "validate SCHEMA (JObj [(''password'', JStr ''longpass1''), (''storageSize'', JNum 50)]) \<and>
   (\<exists>p. Database () ''db'' [(''password'', JStr ''longpass1''), (''storageSize'', JNum 50)]
          \<lparr>stackName = ''app'', vpcConfig = []\<rparr> = Inr p \<and>
        cloudwatchLogsExports p = [''''] \<and> cloudwatchLogsRetention p = ONE_WEEK)"
proof -
  have h: "validate SCHEMA
      (JObj [(''password'', JStr ''longpass1''), (''storageSize'', JNum 50)])"
    by (simp add: validate_def SCHEMA_def has_type_def property_ok_def)
  from h log_settings_are_fixed
         [of "[(''password'', JStr ''longpass1''), (''storageSize'', JNum 50)]" "()" "''db''"
             "\<lparr>stackName = ''app'', vpcConfig = []\<rparr>"]
  have "\<exists>p. Database () ''db'' [(''password'', JStr ''longpass1''), (''storageSize'', JNum 50)]
          \<lparr>stackName = ''app'', vpcConfig = []\<rparr> = Inr p \<and>
        cloudwatchLogsExports p = [''''] \<and> cloudwatchLogsRetention p = ONE_WEEK"
    by blast
  with h show ?thesis by (rule conjI)
qed

end
